theory Spec2Isabelle
  imports Main "HOL-Library.Multiset"
begin

section \<open>The request handlers of the CAST backend (server/controllers.go)\<close>

text \<open>
  The handlers of \<^verbatim>\<open>controllers.go\<close> are embedded as pure functions. A handler
  reads its request, calls helpers of the packages \<^verbatim>\<open>helpers\<close> and \<^verbatim>\<open>models\<close>, and
  writes to an \<^verbatim>\<open>http.ResponseWriter\<close>. The helpers are not part of the file: each
  handler takes the helpers it calls as arguments. What a handler does to the outside
  world is returned as the list of its effects, in program order.
\<close>

subsection \<open>Error responses and the package-level error values\<close>

type_synonym error = string

record errorResponse =
  StatusCode :: int
  ErrorCode :: string
  Message :: string
  Details :: string

text \<open>
  The error values are package-level variables. Two of them are assigned to by
  handlers (\<^verbatim>\<open>errIncompleteRequest.StatusCode = httpStatus\<close>,
  \<^verbatim>\<open>errCreateCommunity.StatusCode = httpStatus\<close>), so they are state that every
  handler reads; the others are never assigned and are constants here.
\<close>

record globals =
  errIncompleteRequest :: errorResponse
  errCreateCommunity :: errorResponse

definition StatusBadRequest :: int where "StatusBadRequest = 400"
definition StatusUnauthorized :: int where "StatusUnauthorized = 401"
definition StatusForbidden :: int where "StatusForbidden = 403"
definition StatusNotFound :: int where "StatusNotFound = 404"
definition StatusInternalServerError :: int where "StatusInternalServerError = 500"
definition StatusOK :: int where "StatusOK = 200"
definition StatusCreated :: int where "StatusCreated = 201"

definition initial_globals :: globals where
  "initial_globals =
     \<lparr> errIncompleteRequest =
         \<lparr> StatusCode = StatusBadRequest, ErrorCode = ''ERR_1001'', Message = ''Error'',
           Details = ''There was an error trying to complete your request'' \<rparr>,
       errCreateCommunity =
         \<lparr> StatusCode = StatusBadRequest, ErrorCode = ''ERR_1002'', Message = ''Error'',
           Details = ''There was an error trying to create your community'' \<rparr> \<rparr>"

definition errForbidden :: errorResponse where
  "errForbidden =
     \<lparr> StatusCode = StatusForbidden, ErrorCode = ''ERR_1005'', Message = ''Forbidden'',
       Details = ''You are not authorized to perform this action.'' \<rparr>"

definition errAlreadyVoted :: errorResponse where
  "errAlreadyVoted =
     \<lparr> StatusCode = StatusBadRequest, ErrorCode = ''ERR_1009'', Message = ''Error'',
       Details = ''Address %s has already voted for proposal %d.'' \<rparr>"

definition nilErr :: errorResponse where
  "nilErr = \<lparr> StatusCode = 0, ErrorCode = [], Message = [], Details = [] \<rparr>"

subsection \<open>Effects of a handler\<close>

text \<open>
  A JSON body is either the four fields of an error response or a value of the
  handler's own result type \<open>'a\<close>. An effect is a log line, one of the three calls
  \<^verbatim>\<open>respondWithJSON\<close> makes on the response writer, or a call \<open>Call c\<close> of a
  helper that changes persistent state (\<open>'c\<close> is what the helper is given).
\<close>

datatype 'a payload = JError errorResponse | JValue 'a

datatype ('a, 'c) effect =
    LogError string
  | HeaderSet string string
  | WriteHeader int
  | Write "'a payload"
  | Call 'c

text \<open>A handler returns normally or panics (a nil pointer dereference).\<close>

datatype ('a, 'c) outcome =
    Returns "('a, 'c) effect list"
  | Panics "('a, 'c) effect list"

definition respondWithJSON :: "int \<Rightarrow> 'a payload \<Rightarrow> ('a, 'c) effect list" where
  "respondWithJSON code p =
     [HeaderSet ''Content-Type'' ''application/json'', WriteHeader code, Write p]"

definition respondWithError :: "errorResponse \<Rightarrow> ('a, 'c) effect list" where
  "respondWithError err = respondWithJSON (StatusCode err) (JError err)"

text \<open>
  What the client receives, as \<^verbatim>\<open>net/http\<close> sends it, for status codes from
  200 to 999: the status line is fixed by the first \<^verbatim>\<open>WriteHeader\<close> (a later one
  is ignored), and every \<^verbatim>\<open>Write\<close> appends to the body. Outside that range
  \<^verbatim>\<open>net/http\<close> does otherwise (it panics on a code below 100 or above 999 and
  sends a code from 100 to 199 as an informational header), and \<open>wire_status\<close> says
  nothing about the response.
\<close>

fun wire_status :: "('a, 'c) effect list \<Rightarrow> int option" where
  "wire_status [] = None"
| "wire_status (WriteHeader code # es) = Some code"
| "wire_status (e # es) = wire_status es"

fun wire_body :: "('a, 'c) effect list \<Rightarrow> 'a payload list" where
  "wire_body [] = []"
| "wire_body (Write p # es) = p # wire_body es"
| "wire_body (e # es) = wire_body es"

fun calls :: "('a, 'c) effect list \<Rightarrow> 'c list" where
  "calls [] = []"
| "calls (Call c # es) = c # calls es"
| "calls (e # es) = calls es"

fun effects :: "('a, 'c) outcome \<Rightarrow> ('a, 'c) effect list" where
  "effects (Returns es) = es"
| "effects (Panics es) = es"

subsection \<open>Request payloads\<close>

text \<open>
  \<^verbatim>\<open>validatePayload\<close> decodes the request body into the payload; the argument is
  what the JSON decoder produced, \<open>None\<close> when it reported an error.
\<close>

definition validatePayload :: "'p option \<Rightarrow> error + 'p" where
  "validatePayload decoded =
     (case decoded of None \<Rightarrow> Inl ''Invalid request payload.'' | Some data \<Rightarrow> Inr data)"

subsection \<open>Pagination parameters\<close>

text \<open>
  \<^verbatim>\<open>strconv.Atoi\<close> on a 64-bit platform: an optional sign, then decimal digits.
  The digits are read from the left. A character that is not a digit is a syntax error
  and the value is 0. A number that no longer fits 64 unsigned bits is a range error
  as soon as the digit that overflows is read, whatever follows it; so is a number
  outside the signed range. On a range error the value is the nearest bound. The
  handlers discard the error.
\<close>

definition maxInt :: int where "maxInt = 2 ^ 63 - 1"
definition minInt :: int where "minInt = - (2 ^ 63)"

definition isDigit :: "char \<Rightarrow> bool" where
  "isDigit c = (48 \<le> (of_char c :: nat) \<and> (of_char c :: nat) \<le> 57)"

datatype parsed = SyntaxError | RangeError | Parsed nat

fun parseDigits :: "nat \<Rightarrow> string \<Rightarrow> parsed" where
  "parseDigits n [] = Parsed n"
| "parseDigits n (c # cs) =
     (if isDigit c then
        (if 2 ^ 64 \<le> n * 10 + (of_char c - 48) then RangeError
         else parseDigits (n * 10 + (of_char c - 48)) cs)
      else SyntaxError)"

definition Atoi :: "string \<Rightarrow> int \<times> error option" where
  "Atoi s =
     (case s of
        [] \<Rightarrow> (0, Some ''invalid syntax'')
      | c # cs \<Rightarrow>
          (let ds = (if c = CHR ''-'' \<or> c = CHR ''+'' then cs else s) in
           if ds = [] then (0, Some ''invalid syntax'')
           else
             (case parseDigits 0 ds of
                SyntaxError \<Rightarrow> (0, Some ''invalid syntax'')
              | RangeError \<Rightarrow>
                  (if c = CHR ''-'' then minInt else maxInt, Some ''value out of range'')
              | Parsed n \<Rightarrow>
                  (let v = (if c = CHR ''-'' then - int n else int n) in
                   if maxInt < v then (maxInt, Some ''value out of range'')
                   else if v < minInt then (minInt, Some ''value out of range'')
                   else (v, None)))))"

text \<open>The form of a request: the values of each key, none when the key is missing.\<close>

type_synonym Request = "string \<Rightarrow> string list"

definition FormValue :: "Request \<Rightarrow> string \<Rightarrow> string" where
  "FormValue r key = (case r key of [] \<Rightarrow> [] | v # vs \<Rightarrow> v)"

record PageParams =
  Start :: int
  Count :: int
  Order :: string
  TotalRecords :: int

definition getPageParams :: "Request \<Rightarrow> int \<Rightarrow> PageParams" where
  "getPageParams r defaultCount =
     (let s = fst (Atoi (FormValue r ''start''));
          c = fst (Atoi (FormValue r ''count''));
          o1 = FormValue r ''order'';
          o2 = (if o1 = [] then ''desc'' else o1);
          c2 = (if defaultCount < c \<or> c < 1 then defaultCount else c);
          s2 = (if s < 0 then 0 else s)
      in \<lparr> Start = s2, Count = c2, Order = o2, TotalRecords = 0 \<rparr>)"

subsection \<open>Contract thresholds of strategies\<close>

text \<open>
  Of \<^verbatim>\<open>models.Strategy\<close> the validation reads the pointer field \<^verbatim>\<open>Threshold\<close>
  only. The numeric type of the threshold is declared outside this file and is a type
  parameter with an order and a 1.
\<close>

record 'n Strategy =
  Name :: "string option"
  Threshold :: "'n option"


subsection \<open>Proposals and the vote handlers\<close>

text \<open>
  The fields of \<^verbatim>\<open>models.Proposal\<close> that the handlers read or write. Pointer
  fields are options: dereferencing \<open>None\<close> is a nil pointer dereference.
\<close>

record Proposal =
  ID :: int
  Community_id :: int
  Strategy :: "string option"
  Status :: "string option"
  Computed_status :: "string option"
  Achievements_done :: bool
  Cid :: "string option"

text \<open>
  \<^verbatim>\<open>getResultsForProposal\<close>. The first argument after the globals is what
  \<^verbatim>\<open>helpers.fetchProposal(vars, "proposalId")\<close> returned: a proposal and an error.
  The handler never reads that error (the next assignment to \<^verbatim>\<open>err\<close> overwrites
  it). \<open>Call (votes, results)\<close> records the call of
  \<^verbatim>\<open>models.AddWinningVoteAchievement\<close>. After a failed award the handler writes
  the error response and, with no \<^verbatim>\<open>return\<close>, goes on to write the results.
\<close>

definition getResultsForProposal ::
  "globals \<Rightarrow> Proposal \<times> error option \<Rightarrow> (int \<Rightarrow> string \<Rightarrow> error + 'v)
   \<Rightarrow> (Proposal \<Rightarrow> 'v \<Rightarrow> error + 'r) \<Rightarrow> ('v \<Rightarrow> 'r \<Rightarrow> error option)
   \<Rightarrow> ('r, 'v \<times> 'r) outcome" where
  "getResultsForProposal g fetchProposal GetAllVotesForProposal useStrategyTally
       AddWinningVoteAchievement =
     (let proposal = fst fetchProposal in
      case Strategy proposal of
        None \<Rightarrow> Panics []
      | Some strategy \<Rightarrow>
          (case GetAllVotesForProposal (ID proposal) strategy of
             Inl err \<Rightarrow>
               Returns (LogError ''Error getting votes for proposal.''
                        # respondWithError (errIncompleteRequest g))
           | Inr votes \<Rightarrow>
               (case useStrategyTally proposal votes of
                  Inl err \<Rightarrow>
                    Returns (LogError ''Error tallying votes.''
                             # respondWithError (errIncompleteRequest g))
                | Inr results \<Rightarrow>
                    (case Computed_status proposal of
                       None \<Rightarrow> Panics []
                     | Some cs \<Rightarrow>
                         if cs = ''closed'' \<and> \<not> Achievements_done proposal then
                           (case AddWinningVoteAchievement votes results of
                              Some err \<Rightarrow>
                                Returns (Call (votes, results)
                                         # LogError ''Error calculating winning votes''
                                         # respondWithError (errIncompleteRequest g)
                                         @ respondWithJSON StatusOK (JValue results))
                            | None \<Rightarrow>
                                Returns (Call (votes, results)
                                         # respondWithJSON StatusOK (JValue results)))
                         else Returns (respondWithJSON StatusOK (JValue results))))))"

text \<open>
  \<^verbatim>\<open>createVoteForProposal\<close>: the same fetch, with the error checked.
  \<open>Call proposal\<close> records the call of \<^verbatim>\<open>helpers.createVote\<close>.
\<close>

definition createVoteForProposal ::
  "globals \<Rightarrow> Proposal \<times> error option \<Rightarrow> (Proposal \<Rightarrow> 'vote \<times> errorResponse)
   \<Rightarrow> ('vote, Proposal) outcome" where
  "createVoteForProposal g fetchProposal createVote =
     (case snd fetchProposal of
        Some err \<Rightarrow>
          Returns (LogError ''Invalid Proposal ID.'' # respondWithError (errIncompleteRequest g))
      | None \<Rightarrow>
          (let proposal = fst fetchProposal;
               vote = fst (createVote proposal);
               errResponse = snd (createVote proposal)
           in if errResponse \<noteq> nilErr then
                Returns (Call proposal # LogError ''Error creating vote.''
                         # respondWithError errResponse)
              else Returns (Call proposal # respondWithJSON StatusCreated (JValue vote))))"

subsection \<open>Updating a proposal\<close>

text \<open>
  The fields of \<^verbatim>\<open>models.UpdateProposalRequestPayload\<close>; its field \<^verbatim>\<open>Status\<close>
  is \<open>Payload_Status\<close> here. The types of the voucher, the timestamp and the
  signatures are declared outside this file.
\<close>

record ('vch, 'ts, 'sig) UpdateProposalRequestPayload =
  Payload_Status :: string
  Voucher :: "'vch option"
  Signing_addr :: string
  Timestamp :: 'ts
  Composite_signatures :: 'sig

datatype proposal_call = PinJSON Proposal | UpdateProposalDB Proposal

text \<open>
  The end of \<^verbatim>\<open>updateProposal\<close>, reached once the signer is validated: the status
  is overwritten, the proposal pinned and written to the database.
\<close>

definition updateProposal_store ::
  "globals \<Rightarrow> Proposal \<Rightarrow> string \<Rightarrow> (Proposal \<Rightarrow> string option \<times> error option)
   \<Rightarrow> (Proposal \<Rightarrow> error option) \<Rightarrow> (Proposal, proposal_call) outcome" where
  "updateProposal_store g p status pinJSONToIpfs UpdateProposal =
     (let p1 = p\<lparr>Status := Some status\<rparr>;
          p2 = p1\<lparr>Cid := fst (pinJSONToIpfs p1)\<rparr>
      in case snd (pinJSONToIpfs p1) of
           Some err \<Rightarrow>
             Returns (Call (PinJSON p1) # LogError ''Error pinning proposal to IPFS''
                      # respondWithError (errIncompleteRequest g))
         | None \<Rightarrow>
             (case UpdateProposal p2 of
                Some err \<Rightarrow>
                  Returns (Call (PinJSON p1) # Call (UpdateProposalDB p2)
                           # LogError ''Error updating proposal''
                           # respondWithError (errIncompleteRequest g))
              | None \<Rightarrow>
                  Returns (Call (PinJSON p1) # Call (UpdateProposalDB p2)
                           # respondWithJSON StatusOK (JValue p2))))"

definition updateProposal ::
  "globals \<Rightarrow> Proposal \<times> error option
   \<Rightarrow> ('vch, 'ts, 'sig) UpdateProposalRequestPayload option
   \<Rightarrow> (string \<Rightarrow> 'vch \<Rightarrow> int \<Rightarrow> string \<Rightarrow> error option)
   \<Rightarrow> (string \<Rightarrow> 'ts \<Rightarrow> 'sig \<Rightarrow> int \<Rightarrow> string \<Rightarrow> error option)
   \<Rightarrow> (Proposal \<Rightarrow> string option \<times> error option)
   \<Rightarrow> (Proposal \<Rightarrow> error option) \<Rightarrow> (Proposal, proposal_call) outcome" where
  "updateProposal g fetchProposal decoded validateUserWithRoleViaVoucher validateUserWithRole
       pinJSONToIpfs UpdateProposal =
     (case snd fetchProposal of
        Some err \<Rightarrow>
          Returns (LogError ''Invalid Proposal ID.'' # respondWithError (errIncompleteRequest g))
      | None \<Rightarrow>
          (let p = fst fetchProposal in
           case validatePayload decoded of
             Inl err \<Rightarrow>
               Returns (LogError ''Invalid request payload.'' # LogError ''Error validating payload''
                        # respondWithError (errIncompleteRequest g))
           | Inr payload \<Rightarrow>
               if Payload_Status payload \<noteq> ''cancelled'' then
                 Returns (LogError ''Invalid status update''
                          # respondWithError (errIncompleteRequest g))
               else
                 (case Voucher payload of
                    Some voucher \<Rightarrow>
                      (case validateUserWithRoleViaVoucher (Signing_addr payload) voucher
                              (Community_id p) ''author'' of
                         Some err \<Rightarrow>
                           Returns (LogError ''Error validating user with role via voucher''
                                    # respondWithError errForbidden)
                       | None \<Rightarrow>
                           updateProposal_store g p (Payload_Status payload)
                             pinJSONToIpfs UpdateProposal)
                  | None \<Rightarrow>
                      (case validateUserWithRole (Signing_addr payload) (Timestamp payload)
                              (Composite_signatures payload) (Community_id p) ''author'' of
                         Some err \<Rightarrow>
                           Returns (LogError ''Error validating user with role''
                                    # respondWithError errForbidden)
                       | None \<Rightarrow>
                           updateProposal_store g p (Payload_Status payload)
                             pinJSONToIpfs UpdateProposal))))"

subsection \<open>Creating and updating a community\<close>





text \<open>\<^verbatim>\<open>mux.Vars\<close>: the path variables, the empty string for a missing one.\<close>

type_synonym Vars = "string \<Rightarrow> string"


subsection \<open>Lists and community users\<close>

text \<open>
  These handlers assign the status code their helper returned to a package-level
  error value before they answer, so they return the globals as they leave them. The
  payload is decoded into a struct whose \<^verbatim>\<open>Community_id\<close> was set from the path:
  \<open>decoded\<close> takes that id.
\<close>

definition set_StatusCode_incomplete :: "globals \<Rightarrow> int \<Rightarrow> globals" where
  "set_StatusCode_incomplete g httpStatus =
     g\<lparr>errIncompleteRequest := (errIncompleteRequest g)\<lparr>StatusCode := httpStatus\<rparr>\<rparr>"

definition set_StatusCode_community :: "globals \<Rightarrow> int \<Rightarrow> globals" where
  "set_StatusCode_community g httpStatus =
     g\<lparr>errCreateCommunity := (errCreateCommunity g)\<lparr>StatusCode := httpStatus\<rparr>\<rparr>"

definition createListForCommunity ::
  "globals \<Rightarrow> Vars \<Rightarrow> (int \<Rightarrow> 'p option) \<Rightarrow> ('p \<Rightarrow> (int \<times> error) + 'l)
   \<Rightarrow> globals \<times> ('l, 'p) outcome" where
  "createListForCommunity g vars decoded helpers_createListForCommunity =
     (case snd (Atoi (vars ''communityId'')) of
        Some err \<Rightarrow>
          (g, Returns (LogError ''Invalid Community ID''
                       # respondWithError (errIncompleteRequest g)))
      | None \<Rightarrow>
          (case validatePayload (decoded (fst (Atoi (vars ''communityId'')))) of
             Inl err \<Rightarrow>
               (g, Returns (LogError ''Invalid request payload.''
                            # LogError ''Error validating payload''
                            # respondWithError (errIncompleteRequest g)))
           | Inr payload \<Rightarrow>
               (case helpers_createListForCommunity payload of
                  Inl (httpStatus, err) \<Rightarrow>
                    (let g2 = set_StatusCode_incomplete g httpStatus in
                     (g2, Returns (Call payload # LogError ''Error creating list for community''
                                   # respondWithError (errIncompleteRequest g2))))
                | Inr l \<Rightarrow>
                    (g, Returns (Call payload # respondWithJSON StatusCreated (JValue l))))))"

definition addAddressesToList ::
  "globals \<Rightarrow> Vars \<Rightarrow> 'p option \<Rightarrow> (int \<Rightarrow> 'p \<Rightarrow> string \<Rightarrow> int \<times> error option)
   \<Rightarrow> globals \<times> (string, int \<times> 'p \<times> string) outcome" where
  "addAddressesToList g vars decoded updateAddressesInList =
     (case snd (Atoi (vars ''id'')) of
        Some err \<Rightarrow>
          (g, Returns (LogError ''Invalid List ID'' # respondWithError (errIncompleteRequest g)))
      | None \<Rightarrow>
          (let id = fst (Atoi (vars ''id'')) in
           case validatePayload decoded of
             Inl err \<Rightarrow>
               (g, Returns (LogError ''Invalid request payload.''
                            # LogError ''Error validating payload''
                            # respondWithError (errIncompleteRequest g)))
           | Inr payload \<Rightarrow>
               (case snd (updateAddressesInList id payload ''add'') of
                  Some err \<Rightarrow>
                    (let g2 = set_StatusCode_incomplete g
                                (fst (updateAddressesInList id payload ''add'')) in
                     (g2, Returns (Call (id, payload, ''add'')
                                   # LogError ''Error adding addresses to list''
                                   # respondWithError (errCreateCommunity g2))))
                | None \<Rightarrow>
                    (g, Returns (Call (id, payload, ''add'')
                                 # respondWithJSON StatusCreated (JValue ''OK''))))))"

definition removeAddressesFromList ::
  "globals \<Rightarrow> Vars \<Rightarrow> 'p option \<Rightarrow> (int \<Rightarrow> 'p \<Rightarrow> string \<Rightarrow> int \<times> error option)
   \<Rightarrow> globals \<times> (string, int \<times> 'p \<times> string) outcome" where
  "removeAddressesFromList g vars decoded updateAddressesInList =
     (case snd (Atoi (vars ''id'')) of
        Some err \<Rightarrow>
          (g, Returns (LogError ''Invalid List ID'' # respondWithError (errIncompleteRequest g)))
      | None \<Rightarrow>
          (let id = fst (Atoi (vars ''id'')) in
           case validatePayload decoded of
             Inl err \<Rightarrow>
               (g, Returns (LogError ''Invalid request payload.''
                            # LogError ''Error validating payload''
                            # respondWithError (errIncompleteRequest g)))
           | Inr payload \<Rightarrow>
               (case snd (updateAddressesInList id payload ''remove'') of
                  Some err \<Rightarrow>
                    (let g2 = set_StatusCode_incomplete g
                                (fst (updateAddressesInList id payload ''remove'')) in
                     (g2, Returns (Call (id, payload, ''remove'')
                                   # LogError ''Error removing addresses from list''
                                   # respondWithError (errIncompleteRequest g2))))
                | None \<Rightarrow>
                    (g, Returns (Call (id, payload, ''remove'')
                                 # respondWithJSON StatusOK (JValue ''OK''))))))"

definition createCommunityUser ::
  "globals \<Rightarrow> Vars \<Rightarrow> (int \<Rightarrow> 'p option) \<Rightarrow> ('p \<Rightarrow> int \<times> error option)
   \<Rightarrow> globals \<times> (string, 'p) outcome" where
  "createCommunityUser g vars decoded helpers_createCommunityUser =
     (case snd (Atoi (vars ''communityId'')) of
        Some err \<Rightarrow>
          (g, Returns (LogError ''Invalid Community ID''
                       # respondWithError (errIncompleteRequest g)))
      | None \<Rightarrow>
          (case validatePayload (decoded (fst (Atoi (vars ''communityId'')))) of
             Inl err \<Rightarrow>
               (g, Returns (LogError ''Invalid request payload.''
                            # LogError ''Error validating payload''
                            # respondWithError (errIncompleteRequest g)))
           | Inr payload \<Rightarrow>
               (case snd (helpers_createCommunityUser payload) of
                  Some err \<Rightarrow>
                    (let g2 = set_StatusCode_community g
                                (fst (helpers_createCommunityUser payload)) in
                     (g2, Returns (Call payload # LogError ''Error creating community user''
                                   # respondWithError (errCreateCommunity g2))))
                | None \<Rightarrow>
                    (g, Returns (Call payload
                                 # respondWithJSON StatusCreated (JValue ''OK''))))))"

section \<open>The tally, the validation of a signer and the award, from the specification\<close>

text \<open>
  \<^verbatim>\<open>helpers.useStrategyTally\<close>, the helpers that validate a signer and the
  package \<^verbatim>\<open>models\<close> are not among the source files. The definitions of this
  section are written from the specification.
\<close>

datatype fail =
    InvalidSignature | ExpiredTimestamp | InsufficientKeyWeight | Forbidden
  | InactiveProposal | AlreadyVoted | InsufficientBalance | StrategyNotFound
  | BalanceFetchError | AchievementComputeError

text \<open>
  Modelled from the spec: the Vote entity of section 3 (the table of votes is absent
  from the sources). Weights are numbers that are added exactly: any type with a
  commutative, associative addition and a zero. The creation timestamp is left out;
  nothing below reads it.
\<close>

record 'w Vote =
  Proposal_id :: int
  Addr :: string
  Choice :: string
  Weight :: 'w

text \<open>
  Modelled from the spec: \<open>tally\<close> of section 4.4 (the code of
  \<^verbatim>\<open>helpers.useStrategyTally\<close> is absent). The weight of every vote is recomputed
  by \<open>weigh_addr\<close> (\<open>computeWeight\<close> for the proposal's strategy and snapshot) and
  added to the entry of the vote's choice; a weight that cannot be computed fails the
  tally.
\<close>

fun tally_from ::
  "(string \<Rightarrow> fail + ('w :: comm_monoid_add)) \<Rightarrow> (string \<rightharpoonup> 'w) \<Rightarrow> 'w Vote list
   \<Rightarrow> fail + (string \<rightharpoonup> 'w)" where
  "tally_from weigh_addr acc [] = Inr acc"
| "tally_from weigh_addr acc (v # vs) =
     (case weigh_addr (Addr v) of
        Inl e \<Rightarrow> Inl e
      | Inr w \<Rightarrow>
          tally_from weigh_addr
            (acc(Choice v \<mapsto> (case acc (Choice v) of None \<Rightarrow> w | Some a \<Rightarrow> a + w))) vs)"

definition tally ::
  "(string \<Rightarrow> fail + ('w :: comm_monoid_add)) \<Rightarrow> 'w Vote list \<Rightarrow> fail + (string \<rightharpoonup> 'w)" where
  "tally weigh_addr votes = tally_from weigh_addr Map.empty votes"

text \<open>
  Modelled from the spec: the weight \<open>computeWeight\<close> gives a voter (section 4.3;
  the Strategy Engine is absent from the sources), 0 where it fails, and the sum of the
  recomputed weights of the votes for one choice.
\<close>

definition weight_of :: "(string \<Rightarrow> fail + ('w :: comm_monoid_add)) \<Rightarrow> string \<Rightarrow> 'w" where
  "weight_of weigh_addr a = (case weigh_addr a of Inl e \<Rightarrow> 0 | Inr w \<Rightarrow> w)"

definition choice_sum ::
  "(string \<Rightarrow> fail + ('w :: comm_monoid_add)) \<Rightarrow> 'w Vote list \<Rightarrow> string \<Rightarrow> 'w" where
  "choice_sum weigh_addr vs c =
     sum_list (map (\<lambda>v. weight_of weigh_addr (Addr v)) (filter (\<lambda>v. Choice v = c) vs))"




text \<open>
  Modelled from the spec: the persisted \<open>achievements_done\<close> flag of a proposal
  (section 3), with a count of the times the award has run (the table of proposals is
  absent from the sources).
\<close>

record achievement_store =
  achievements_done :: bool
  awards :: nat

text \<open>
  Modelled from the spec: \<open>maybeAwardAchievements\<close> of sections 4.5 and 5 (the code
  of \<^verbatim>\<open>models.AddWinningVoteAchievement\<close> is absent). One conditional update
  flips \<open>achievements_done\<close> from false to true; the award runs only if the flip
  succeeded. Losing the flip is not an error.
\<close>

definition maybeAwardAchievements :: "achievement_store \<Rightarrow> achievement_store" where
  "maybeAwardAchievements st =
     (if achievements_done st then st
      else \<lparr> achievements_done = True, awards = awards st + 1 \<rparr>)"

text \<open>
  Modelled from the spec: tally reads that race on one proposal (section 5: every
  request has a worker of its own; the workers are absent from the sources). A request
  first fetches the proposal, a copy that carries the flag as persisted at that moment,
  and later runs the rest of \<^verbatim>\<open>getResultsForProposal\<close> on its copy. Every call of
  the award helper that the handler makes is one \<open>maybeAwardAchievements\<close> on the
  store. A run is a list of these events of any number of requests, in any order.
\<close>

datatype event = Fetch nat | Finish nat

record tally_run =
  store :: achievement_store
  copies :: "nat \<Rightarrow> Proposal option"
  finished :: nat

definition initial_run :: tally_run where
  "initial_run =
     \<lparr> store = \<lparr> achievements_done = False, awards = 0 \<rparr>,
       copies = (\<lambda>i. None), finished = 0 \<rparr>"

definition after_handler :: "achievement_store \<Rightarrow> ('r, 'c) outcome \<Rightarrow> achievement_store" where
  "after_handler st out = (maybeAwardAchievements ^^ length (calls (effects out))) st"

fun step ::
  "globals \<Rightarrow> Proposal \<Rightarrow> (int \<Rightarrow> string \<Rightarrow> error + 'v) \<Rightarrow> (Proposal \<Rightarrow> 'v \<Rightarrow> error + 'r)
   \<Rightarrow> ('v \<Rightarrow> 'r \<Rightarrow> error option) \<Rightarrow> tally_run \<Rightarrow> event \<Rightarrow> tally_run" where
  "step g p gv ut aw s (Fetch i) =
     s\<lparr>copies := (copies s)(i \<mapsto> p\<lparr>Achievements_done := achievements_done (store s)\<rparr>)\<rparr>"
| "step g p gv ut aw s (Finish i) =
     (case copies s i of
        None \<Rightarrow> s
      | Some q \<Rightarrow>
          s\<lparr>store := after_handler (store s) (getResultsForProposal g (q, None) gv ut aw),
            copies := (copies s)(i := None),
            finished := finished s + 1\<rparr>)"

fun run_events ::
  "globals \<Rightarrow> Proposal \<Rightarrow> (int \<Rightarrow> string \<Rightarrow> error + 'v) \<Rightarrow> (Proposal \<Rightarrow> 'v \<Rightarrow> error + 'r)
   \<Rightarrow> ('v \<Rightarrow> 'r \<Rightarrow> error option) \<Rightarrow> tally_run \<Rightarrow> event list \<Rightarrow> tally_run" where
  "run_events g p gv ut aw s [] = s"
| "run_events g p gv ut aw s (e # es) = run_events g p gv ut aw (step g p gv ut aw s e) es"

text \<open>
  Modelled from the spec: two invariants of such a run. The award has run once if the
  flag is set and never otherwise; a copy that carries a set flag was fetched when the
  flag was set, and once a request has finished the flag is set.
\<close>

definition count_ok :: "tally_run \<Rightarrow> bool" where
  "count_ok s = (awards (store s) = (if achievements_done (store s) then 1 else 0))"

definition reads_ok :: "Proposal \<Rightarrow> tally_run \<Rightarrow> bool" where
  "reads_ok p s =
     ((\<forall>i q. copies s i = Some q \<longrightarrow>
         (\<exists>b. q = p\<lparr>Achievements_done := b\<rparr> \<and> (b \<longrightarrow> achievements_done (store s))))
      \<and> (0 < finished s \<longrightarrow> achievements_done (store s)))"

section \<open>Example inputs\<close>

text \<open>A request with a negative start, a count above every maximum and no order.\<close>

definition example_request :: Request where
  "example_request key =
     (if key = ''start'' then [''-5''] else if key = ''count'' then [''1000''] else [])"





text \<open>
  A proposal that is closed, a request to cancel it signed by an author of its
  community, and the same request through a voucher whose signer holds no role. The
  examples look a signer up in a table of grants: \<open>holds_role\<close> stands for the
  Role Authorizer, \<open>role_table_check\<close> for a whole validator that ignores the
  signatures.
\<close>

definition closed_proposal :: Proposal where
  "closed_proposal =
     \<lparr> ID = 7, Community_id = 1, Strategy = Some ''one-address-one-vote'',
       Status = Some ''closed'', Computed_status = Some ''closed'',
       Achievements_done = True, Cid = Some ''cid-0'' \<rparr>"

definition cancel_request :: "(string, string, string list) UpdateProposalRequestPayload" where
  "cancel_request =
     \<lparr> Payload_Status = ''cancelled'', Voucher = None, Signing_addr = ''0xf8d6e0586b0a20c7'',
       Timestamp = ''1650000000'', Composite_signatures = [''sig''] \<rparr>"




definition example_grants :: "(int \<times> string \<times> string) list" where
  "example_grants = [(1, ''0xf8d6e0586b0a20c7'', ''author'')]"

definition role_table_check ::
  "(int \<times> string \<times> string) list \<Rightarrow> string \<Rightarrow> int \<Rightarrow> string \<Rightarrow> error option" where
  "role_table_check grants addr communityId role =
     (if (communityId, addr, role) \<in> set grants then None
      else Some ''user does not have the role'')"

text \<open>A proposal that has just closed and whose achievements are not done.\<close>

definition newly_closed_proposal :: Proposal where
  "newly_closed_proposal =
     \<lparr> ID = 9, Community_id = 1, Strategy = Some ''one-address-one-vote'',
       Status = Some ''published'', Computed_status = Some ''closed'',
       Achievements_done = False, Cid = Some ''cid-9'' \<rparr>"

text \<open>Three votes on one proposal, and the balances of their voters.\<close>

definition three_votes :: "int Vote list" where
  "three_votes =
     [\<lparr> Proposal_id = 1, Addr = ''0xX'', Choice = ''yes'', Weight = 1 \<rparr>,
      \<lparr> Proposal_id = 1, Addr = ''0xY'', Choice = ''no'', Weight = 15 \<rparr>,
      \<lparr> Proposal_id = 1, Addr = ''0xZ'', Choice = ''yes'', Weight = 4 \<rparr>]"

definition balances :: "string \<Rightarrow> fail + int" where
  "balances a =
     (if a = ''0xX'' then Inr 1 else if a = ''0xY'' then Inr 15
      else if a = ''0xZ'' then Inr 4 else Inl BalanceFetchError)"

section \<open>Properties\<close>

subsection \<open>Pagination\<close>

lemma Atoi_range: "minInt \<le> fst (Atoi s) \<and> fst (Atoi s) \<le> maxInt"
  by (auto simp: Atoi_def Let_def maxInt_def minInt_def split: list.splits parsed.splits)

text \<open>
  C7. For every request and every configured maximum of at least 1 (the handlers
  pass 25 or 100), the page parameters have a count between 1 and the maximum: a
  count above the maximum or below 1 becomes the maximum, any other count is
  kept. The start is never negative: a negative start becomes 0. A missing or empty
  order becomes "desc", any other order is kept.
\<close>

theorem getPageParams_bounds:
  assumes "1 \<le> defaultCount"
  shows "1 \<le> Count (getPageParams r defaultCount)
       \<and> Count (getPageParams r defaultCount) \<le> defaultCount
       \<and> 0 \<le> Start (getPageParams r defaultCount)
       \<and> Count (getPageParams r defaultCount) =
           (if defaultCount < fst (Atoi (FormValue r ''count''))
               \<or> fst (Atoi (FormValue r ''count'')) < 1
            then defaultCount else fst (Atoi (FormValue r ''count'')))
       \<and> Start (getPageParams r defaultCount) = max 0 (fst (Atoi (FormValue r ''start'')))
       \<and> Order (getPageParams r defaultCount) =
           (if FormValue r ''order'' = [] then ''desc'' else FormValue r ''order'')"
  using assms by (simp add: getPageParams_def Let_def max_def)

theorem getPageParams_bounds_witness:
  "(1::int) \<le> 25
   \<and> Count (getPageParams example_request 25) = 25
   \<and> Start (getPageParams example_request 25) = 0
   \<and> Order (getPageParams example_request 25) = ''desc''"
proof -
  have a: "Atoi ''-5'' = (-5, None)"
    by (simp add: Atoi_def isDigit_def Let_def maxInt_def minInt_def)
  have b: "Atoi ''1000'' = (1000, None)"
    by (simp add: Atoi_def isDigit_def Let_def maxInt_def minInt_def)
  show ?thesis
    using getPageParams_bounds [of 25 example_request]
    by (simp add: example_request_def FormValue_def a b)
qed

subsection \<open>What a list of effects sends and calls\<close>





lemma Atoi_1: "Atoi ''1'' = (1, None)"
  by (simp add: Atoi_def isDigit_def Let_def maxInt_def minInt_def)

subsection \<open>Contract thresholds\<close>







subsection \<open>The results of a proposal\<close>

text \<open>
  The handler calls \<^verbatim>\<open>models.AddWinningVoteAchievement\<close> only for a proposal
  whose computed status is "closed" and whose achievements are not done, as read from
  the proposal it fetched at the start of the request.
\<close>

lemma getResultsForProposal_award_guard:
  assumes "c \<in> set (calls (effects (getResultsForProposal g f gv ut aw)))"
  shows "Computed_status (fst f) = Some ''closed'' \<and> \<not> Achievements_done (fst f)"
  using assms
  by (auto simp: getResultsForProposal_def Let_def respondWithError_def respondWithJSON_def
      split: option.splits sum.splits if_splits)

lemma maybeAward_count:
  "awards st = (if achievements_done st then 1 else 0) \<Longrightarrow>
   awards (maybeAwardAchievements st) = (if achievements_done (maybeAwardAchievements st) then 1 else 0)"
  by (simp add: maybeAwardAchievements_def)

lemma maybeAward_done: "achievements_done (maybeAwardAchievements st)"
  by (simp add: maybeAwardAchievements_def)

lemma funpow_award_count:
  "awards st = (if achievements_done st then 1 else 0) \<Longrightarrow>
   awards ((maybeAwardAchievements ^^ k) st)
     = (if achievements_done ((maybeAwardAchievements ^^ k) st) then 1 else 0)"
  by (induction k) (simp_all add: maybeAward_count)

lemma funpow_award_mono:
  "achievements_done st \<Longrightarrow> achievements_done ((maybeAwardAchievements ^^ k) st)"
  by (induction k) (simp_all add: maybeAward_done)

lemma funpow_award_Suc: "achievements_done ((maybeAwardAchievements ^^ Suc k) st)"
  by (simp add: maybeAward_done)

lemma funpow_award_once:
  "(maybeAwardAchievements ^^ Suc n) \<lparr> achievements_done = False, awards = 0 \<rparr>
     = \<lparr> achievements_done = True, awards = 1 \<rparr>"
  by (induction n) (simp_all add: maybeAwardAchievements_def)

lemma getResultsForProposal_calls_closed:
  assumes "Computed_status q = Some ''closed''" "\<not> Achievements_done q"
    "Strategy q = Some st" "gv (ID q) st = Inr votes" "ut q votes = Inr results"
  shows "calls (effects (getResultsForProposal g (q, e) gv ut aw)) = [(votes, results)]"
  using assms
  by (simp add: getResultsForProposal_def respondWithError_def respondWithJSON_def
      split: option.splits)

lemma step_count_ok: "count_ok s \<Longrightarrow> count_ok (step g p gv ut aw s e)"
  by (cases e) (auto simp: count_ok_def after_handler_def funpow_award_count split: option.splits)

lemma run_count_ok: "count_ok s \<Longrightarrow> count_ok (run_events g p gv ut aw s es)"
  by (induction es arbitrary: s) (simp_all add: step_count_ok)

lemma step_reads_ok:
  assumes "reads_ok p s" "Computed_status p = Some ''closed''" "Strategy p = Some st"
    "gv (ID p) st = Inr votes" "\<forall>q. \<exists>results. ut q votes = Inr results"
  shows "reads_ok p (step g p gv ut aw s e)"
proof (cases e)
  case (Fetch i)
  with assms(1) show ?thesis by (auto simp: reads_ok_def)
next
  case (Finish i)
  show ?thesis
  proof (cases "copies s i")
    case None
    with Finish assms(1) show ?thesis by simp
  next
    case (Some q)
    from assms(1) Some obtain b where q: "q = p\<lparr>Achievements_done := b\<rparr>"
      and b: "b \<longrightarrow> achievements_done (store s)"
      by (auto simp: reads_ok_def)
    obtain results where r: "ut q votes = Inr results" using assms(5) by blast
    have d: "achievements_done
               (after_handler (store s) (getResultsForProposal g (q, None) gv ut aw))"
    proof (cases b)
      case True
      with b show ?thesis by (simp add: after_handler_def funpow_award_mono)
    next
      case False
      then have "calls (effects (getResultsForProposal g (q, None) gv ut aw)) = [(votes, results)]"
        using getResultsForProposal_calls_closed [of q st gv votes ut results g None aw]
          q assms(2,3,4) r by simp
      then show ?thesis by (simp add: after_handler_def maybeAward_done)
    qed
    have m: "achievements_done (store s) \<Longrightarrow> achievements_done
               (after_handler (store s) (getResultsForProposal g (q, None) gv ut aw))"
      by (simp add: after_handler_def funpow_award_mono)
    from assms(1) d show ?thesis
      unfolding Finish by (auto simp: reads_ok_def Some)
  qed
qed

lemma run_reads_ok:
  assumes "reads_ok p s" "Computed_status p = Some ''closed''" "Strategy p = Some st"
    "gv (ID p) st = Inr votes" "\<forall>q. \<exists>results. ut q votes = Inr results"
  shows "reads_ok p (run_events g p gv ut aw s es)"
  using assms(1)
proof (induction es arbitrary: s)
  case Nil
  then show ?case by simp
next
  case (Cons e es)
  have "reads_ok p (step g p gv ut aw s e)"
    using Cons.prems assms(2,3,4,5) by (rule step_reads_ok)
  from Cons.IH [OF this] show ?case by simp
qed

text \<open>
  C2. The handler calls the award helper only for a proposal that it fetched with the
  computed status "closed" and the achievements not done; when such a proposal's votes
  are read and tallied it makes the call, whatever other request has fetched the same
  proposal. With the helper as the specification describes it, one conditional flip of
  \<open>achievements_done\<close>, every run of tally reads of one proposal, in every order of
  their fetches and calls, leaves the award run at most once, and run once exactly when
  the flag is set. Once a request on a closed proposal has finished, with the votes read
  and tallied, the flag is set and the award has run once. In particular \<open>n + 1\<close>
  invocations of the helper on a fresh flag run the award once and leave the flag set.
\<close>

theorem award_at_most_once:
  "(c \<in> set (calls (effects (getResultsForProposal g f gv ut aw)))
      \<longrightarrow> Computed_status (fst f) = Some ''closed'' \<and> \<not> Achievements_done (fst f))
   \<and> (Computed_status q = Some ''closed'' \<and> \<not> Achievements_done q \<and> Strategy q = Some st
       \<and> gv (ID q) st = Inr votes \<and> ut q votes = Inr results
      \<longrightarrow> calls (effects (getResultsForProposal g (q, e) gv ut aw)) = [(votes, results)])
   \<and> awards (store (run_events g p gv ut aw initial_run es)) \<le> 1
   \<and> (achievements_done (store (run_events g p gv ut aw initial_run es))
        = (awards (store (run_events g p gv ut aw initial_run es)) = 1))
   \<and> (Computed_status p = Some ''closed'' \<and> Strategy p = Some st
       \<and> gv (ID p) st = Inr votes \<and> (\<forall>q. \<exists>results. ut q votes = Inr results)
       \<and> 0 < finished (run_events g p gv ut aw initial_run es)
      \<longrightarrow> achievements_done (store (run_events g p gv ut aw initial_run es))
          \<and> awards (store (run_events g p gv ut aw initial_run es)) = 1)
   \<and> (maybeAwardAchievements ^^ Suc n) \<lparr> achievements_done = False, awards = 0 \<rparr>
       = \<lparr> achievements_done = True, awards = 1 \<rparr>"
proof -
  let ?s = "run_events g p gv ut aw initial_run es"
  have 1: "c \<in> set (calls (effects (getResultsForProposal g f gv ut aw)))
      \<longrightarrow> Computed_status (fst f) = Some ''closed'' \<and> \<not> Achievements_done (fst f)"
    using getResultsForProposal_award_guard [of c g f gv ut aw] by blast
  have 2: "Computed_status q = Some ''closed'' \<and> \<not> Achievements_done q \<and> Strategy q = Some st
       \<and> gv (ID q) st = Inr votes \<and> ut q votes = Inr results
      \<longrightarrow> calls (effects (getResultsForProposal g (q, e) gv ut aw)) = [(votes, results)]"
    using getResultsForProposal_calls_closed [of q st gv votes ut results g e aw] by blast
  have c0: "count_ok initial_run" by (simp add: count_ok_def initial_run_def)
  have c: "count_ok ?s" using c0 by (rule run_count_ok)
  have 3: "awards (store ?s) \<le> 1" using c by (simp add: count_ok_def)
  have 4: "achievements_done (store ?s) = (awards (store ?s) = 1)"
    using c by (simp add: count_ok_def)
  have r0: "reads_ok p initial_run" by (simp add: reads_ok_def initial_run_def)
  have 5: "Computed_status p = Some ''closed'' \<and> Strategy p = Some st
       \<and> gv (ID p) st = Inr votes \<and> (\<forall>q. \<exists>results. ut q votes = Inr results)
       \<and> 0 < finished ?s
      \<longrightarrow> achievements_done (store ?s) \<and> awards (store ?s) = 1"
  proof
    assume a: "Computed_status p = Some ''closed'' \<and> Strategy p = Some st
       \<and> gv (ID p) st = Inr votes \<and> (\<forall>q. \<exists>results. ut q votes = Inr results)
       \<and> 0 < finished ?s"
    then have "reads_ok p ?s"
      using run_reads_ok [OF r0, of st gv votes ut g aw es] by blast
    with a have "achievements_done (store ?s)" by (simp add: reads_ok_def)
    with 4 show "achievements_done (store ?s) \<and> awards (store ?s) = 1" by simp
  qed
  note 6 = funpow_award_once [of n]
  from 1 2 3 4 5 6 show ?thesis by blast
qed

theorem award_at_most_once_witness:
  "store (run_events initial_globals newly_closed_proposal
       (\<lambda>pid strategy. Inr three_votes) (\<lambda>p vs. Inr ''results'') (\<lambda>vs rs. None)
       initial_run [Fetch 0, Fetch 1, Finish 0, Fetch 2, Finish 1, Finish 2])
     = \<lparr> achievements_done = True, awards = 1 \<rparr>
   \<and> calls (effects (getResultsForProposal initial_globals (newly_closed_proposal, None)
       (\<lambda>pid strategy. Inr three_votes) (\<lambda>p vs. Inr ''results'') (\<lambda>vs rs. None)))
     = [(three_votes, ''results'')]"
proof -
  let ?gv = "\<lambda>(pid :: int) (strategy :: string). Inr three_votes :: error + int Vote list"
  let ?ut = "\<lambda>(p :: Proposal) (vs :: int Vote list). Inr ''results'' :: error + string"
  let ?aw = "\<lambda>(vs :: int Vote list) (rs :: string). None :: error option"
  let ?es = "[Fetch 0, Fetch 1, Finish 0, Fetch 2, Finish 1, Finish 2]"
  let ?s = "run_events initial_globals newly_closed_proposal ?gv ?ut ?aw initial_run ?es"
  note T = award_at_most_once [where g = initial_globals and p = newly_closed_proposal
      and q = newly_closed_proposal and gv = ?gv and ut = ?ut and aw = ?aw and es = ?es
      and st = "''one-address-one-vote''" and votes = three_votes and results = "''results''"
      and e = None and n = 0 and f = "(newly_closed_proposal, None)"
      and c = "(three_votes, ''results'')"]
  have f: "finished ?s = 3"
    by (simp add: initial_run_def)
  have h: "Computed_status newly_closed_proposal = Some ''closed''"
      "Strategy newly_closed_proposal = Some ''one-address-one-vote''"
      "\<not> Achievements_done newly_closed_proposal"
    by (simp_all add: newly_closed_proposal_def)
  from T f h have 1: "achievements_done (store ?s) \<and> awards (store ?s) = 1"
    by simp
  then have 2: "store ?s = \<lparr> achievements_done = True, awards = 1 \<rparr>"
    by (cases "store ?s") simp
  from T h have 3: "calls (effects (getResultsForProposal initial_globals
       (newly_closed_proposal, None) ?gv ?ut ?aw)) = [(three_votes, ''results'')]"
    by simp
  from 2 3 show ?thesis by simp
qed

text \<open>
  C3. A tally read on a closed proposal whose achievements are not done, where the
  votes are read and tallied and the award fails: the handler writes the
  incomplete-request error first and the results after it. The client receives the
  error's status code (400 unless a handler has changed it) and a body that holds the
  error followed by the results: the read is answered as a failure.
\<close>

theorem getResultsForProposal_award_failure:
  "getResultsForProposal g
     (\<lparr> ID = i, Community_id = c, Strategy = Some st, Status = s,
        Computed_status = Some ''closed'', Achievements_done = False, Cid = cid \<rparr>, e)
     (\<lambda>pid strategy. Inr votes) (\<lambda>p vs. Inr results) (\<lambda>vs rs. Some err)
   = Returns (Call (votes, results) # LogError ''Error calculating winning votes''
              # respondWithError (errIncompleteRequest g)
              @ respondWithJSON StatusOK (JValue results))
   \<and> wire_status (effects (getResultsForProposal g
     (\<lparr> ID = i, Community_id = c, Strategy = Some st, Status = s,
        Computed_status = Some ''closed'', Achievements_done = False, Cid = cid \<rparr>, e)
     (\<lambda>pid strategy. Inr votes) (\<lambda>p vs. Inr results) (\<lambda>vs rs. Some err)))
     = Some (StatusCode (errIncompleteRequest g))
   \<and> wire_body (effects (getResultsForProposal g
     (\<lparr> ID = i, Community_id = c, Strategy = Some st, Status = s,
        Computed_status = Some ''closed'', Achievements_done = False, Cid = cid \<rparr>, e)
     (\<lambda>pid strategy. Inr votes) (\<lambda>p vs. Inr results) (\<lambda>vs rs. Some err)))
     = [JError (errIncompleteRequest g), JValue results]
   \<and> StatusCode (errIncompleteRequest initial_globals) = 400"
  by (simp add: getResultsForProposal_def respondWithError_def respondWithJSON_def
      initial_globals_def StatusBadRequest_def)

text \<open>
  C4. A tally read whose proposal could not be fetched: the handler does not look at
  the error of the fetch. With the \<^verbatim>\<open>Strategy\<close> pointer nil, as in an empty
  proposal, it panics on the dereference before anything is written. With the pointer
  set it goes on to read and tally votes and answers 200. The handler that creates a
  vote checks the same error and answers with the incomplete-request error.
\<close>

theorem getResultsForProposal_ignores_fetch_error:
  "getResultsForProposal g
     (\<lparr> ID = i, Community_id = c, Strategy = None, Status = s,
        Computed_status = cs, Achievements_done = d, Cid = cid \<rparr>, Some err)
     GetAllVotesForProposal useStrategyTally AddWinningVoteAchievement = Panics []
   \<and> getResultsForProposal g
     (\<lparr> ID = i, Community_id = c, Strategy = Some st, Status = s,
        Computed_status = Some ''active'', Achievements_done = d, Cid = cid \<rparr>, Some err)
     (\<lambda>pid strategy. Inr votes) (\<lambda>p vs. Inr results) AddWinningVoteAchievement
     = Returns (respondWithJSON StatusOK (JValue results))
   \<and> createVoteForProposal g
     (\<lparr> ID = i, Community_id = c, Strategy = None, Status = s,
        Computed_status = cs, Achievements_done = d, Cid = cid \<rparr>, Some err) createVote
     = Returns (LogError ''Invalid Proposal ID.'' # respondWithError (errIncompleteRequest g))"
  by (simp add: getResultsForProposal_def createVoteForProposal_def)

subsection \<open>The shared error values\<close>

text \<open>
  C10. A request to create a list whose helper fails with status \<open>h\<close> leaves
  \<open>h\<close> in the shared incomplete-request error. A later request of another kind (a
  vote on a proposal that cannot be fetched) is then answered with status \<open>h\<close>,
  where the same request is answered with 400 when no handler has failed before.
  \<^verbatim>\<open>addAddressesToList\<close> and \<^verbatim>\<open>removeAddressesFromList\<close> change the same
  value, \<^verbatim>\<open>createCommunityUser\<close> the create-community error, and
  \<^verbatim>\<open>addAddressesToList\<close> answers with the create-community error, which it did not
  change.
\<close>

theorem shared_status_code_leaks:
  "fst (createListForCommunity g (\<lambda>k. ''1'') (\<lambda>cid. Some p) (\<lambda>pl. Inl (h, e)))
     = set_StatusCode_incomplete g h
   \<and> wire_status (effects (snd (createListForCommunity g (\<lambda>k. ''1'') (\<lambda>cid. Some p)
        (\<lambda>pl. Inl (h, e))))) = Some h
   \<and> wire_status (effects (createVoteForProposal (set_StatusCode_incomplete g h)
        (q, Some e2) createVote)) = Some h
   \<and> wire_status (effects (createVoteForProposal initial_globals (q, Some e2) createVote))
       = Some 400
   \<and> fst (addAddressesToList g (\<lambda>k. ''1'') (Some p2) (\<lambda>i pl a. (h, Some e)))
       = set_StatusCode_incomplete g h
   \<and> wire_status (effects (snd (addAddressesToList g (\<lambda>k. ''1'') (Some p2)
        (\<lambda>i pl a. (h, Some e))))) = Some (StatusCode (errCreateCommunity g))
   \<and> fst (removeAddressesFromList g (\<lambda>k. ''1'') (Some p2) (\<lambda>i pl a. (h, Some e)))
       = set_StatusCode_incomplete g h
   \<and> fst (createCommunityUser g (\<lambda>k. ''1'') (\<lambda>cid. Some p3) (\<lambda>pl. (h, Some e)))
       = set_StatusCode_community g h"
  by (simp add: createListForCommunity_def addAddressesToList_def removeAddressesFromList_def
      createCommunityUser_def createVoteForProposal_def Atoi_1 validatePayload_def
      set_StatusCode_incomplete_def set_StatusCode_community_def
      respondWithError_def respondWithJSON_def initial_globals_def StatusBadRequest_def)


subsection \<open>Updating a proposal\<close>

lemma updateProposal_store_calls:
  "UpdateProposalDB q \<in> set (calls (effects (updateProposal_store g p st pin upd))) \<Longrightarrow>
   q = p\<lparr>Status := Some st, Cid := fst (pin (p\<lparr>Status := Some st\<rparr>))\<rparr>"
  by (auto simp: updateProposal_store_def Let_def respondWithError_def respondWithJSON_def split: option.splits)

lemma updateProposal_calls:
  "UpdateProposalDB q \<in> set (calls (effects (updateProposal g f d vv vr pin upd))) \<Longrightarrow>
   Status q = Some ''cancelled''"
  by (auto simp: updateProposal_def Let_def validatePayload_def respondWithError_def respondWithJSON_def
      split: option.splits sum.splits if_splits dest!: updateProposal_store_calls)

text \<open>
  C5, as the code has it. The update path accepts the requested status "cancelled"
  only: any other requested status is answered with the incomplete-request error
  before the signer is looked at, and nothing is pinned or written. Whatever is written
  to the database has the status "cancelled". The handler does not read the proposal's
  status or computed status: a cancel request whose signer is validated, and whose pin
  and database write succeed, is carried out for every proposal, and answered 200 with
  the proposal cancelled.
\<close>

theorem updateProposal_only_cancels:
  "(Payload_Status payload \<noteq> ''cancelled'' \<longrightarrow>
      updateProposal g (p, None) (Some payload) vv vr pin upd
        = Returns (LogError ''Invalid status update'' # respondWithError (errIncompleteRequest g))
      \<and> calls (effects (updateProposal g (p, None) (Some payload) vv vr pin upd)) = [])
   \<and> (\<forall>q. UpdateProposalDB q \<in> set (calls (effects (updateProposal g f d vv vr pin upd)))
         \<longrightarrow> Status q = Some ''cancelled'')
   \<and> (Payload_Status payload = ''cancelled''
       \<and> (case Voucher payload of
             Some v \<Rightarrow> vv (Signing_addr payload) v (Community_id p) ''author''
           | None \<Rightarrow> vr (Signing_addr payload) (Timestamp payload)
                        (Composite_signatures payload) (Community_id p) ''author'') = None
       \<and> snd (pin (p\<lparr>Status := Some ''cancelled''\<rparr>)) = None
       \<and> upd (p\<lparr>Status := Some ''cancelled'',
                 Cid := fst (pin (p\<lparr>Status := Some ''cancelled''\<rparr>))\<rparr>) = None
      \<longrightarrow> updateProposal g (p, None) (Some payload) vv vr pin upd
        = Returns (Call (PinJSON (p\<lparr>Status := Some ''cancelled''\<rparr>))
            # Call (UpdateProposalDB (p\<lparr>Status := Some ''cancelled'',
                 Cid := fst (pin (p\<lparr>Status := Some ''cancelled''\<rparr>))\<rparr>))
            # respondWithJSON StatusOK (JValue (p\<lparr>Status := Some ''cancelled'',
                 Cid := fst (pin (p\<lparr>Status := Some ''cancelled''\<rparr>))\<rparr>))))"
  apply (intro conjI impI allI)
     apply (simp add: updateProposal_def validatePayload_def)
    apply (simp add: updateProposal_def validatePayload_def respondWithError_def respondWithJSON_def)
   apply (erule updateProposal_calls)
  apply (auto simp: updateProposal_def updateProposal_store_def validatePayload_def Let_def split: option.splits)
  done

theorem updateProposal_only_cancels_witness:
  "updateProposal initial_globals (closed_proposal, None)
      (Some (cancel_request\<lparr>Payload_Status := ''published''\<rparr>))
      (\<lambda>addr v cid role. role_table_check example_grants addr cid role)
      (\<lambda>addr ts sigs cid role. role_table_check example_grants addr cid role)
      (\<lambda>p. (Some ''cid-1'', None)) (\<lambda>p. None)
    = Returns (LogError ''Invalid status update''
               # respondWithError (errIncompleteRequest initial_globals))
   \<and> Status (closed_proposal\<lparr>Status := Some ''cancelled'', Cid := Some ''cid-1''\<rparr>)
       = Some ''cancelled''"
  using updateProposal_only_cancels [of "cancel_request\<lparr>Payload_Status := ''published''\<rparr>"
      initial_globals closed_proposal
      "\<lambda>addr v cid role. role_table_check example_grants addr cid role"
      "\<lambda>addr ts sigs cid role. role_table_check example_grants addr cid role"
      "\<lambda>p. (Some ''cid-1'', None)" "\<lambda>p. None" "(closed_proposal, None)" "Some cancel_request"]
  by (simp add: cancel_request_def)

text \<open>
  A proposal whose status and computed status are "closed", and a cancel request
  signed by an author of its community: the request is accepted, the proposal is
  written with the status "cancelled" and returned with 200.
\<close>

theorem updateProposal_cancels_closed:
  "updateProposal initial_globals (closed_proposal, None) (Some cancel_request)
      (\<lambda>addr v cid role. role_table_check example_grants addr cid role)
      (\<lambda>addr ts sigs cid role. role_table_check example_grants addr cid role)
      (\<lambda>p. (Some ''cid-1'', None)) (\<lambda>p. None)
    = Returns (Call (PinJSON (closed_proposal\<lparr>Status := Some ''cancelled''\<rparr>))
        # Call (UpdateProposalDB (closed_proposal\<lparr>Status := Some ''cancelled'', Cid := Some ''cid-1''\<rparr>))
        # respondWithJSON StatusOK (JValue (closed_proposal\<lparr>Status := Some ''cancelled'', Cid := Some ''cid-1''\<rparr>)))
   \<and> Status closed_proposal = Some ''closed''
   \<and> Computed_status closed_proposal = Some ''closed''"
  by (simp add: updateProposal_def updateProposal_store_def validatePayload_def cancel_request_def
      role_table_check_def example_grants_def closed_proposal_def Let_def)








subsection \<open>The tally\<close>

lemma tally_from_succeeds:
  "(\<exists>m. tally_from wa acc vs = Inr m) = (\<forall>v \<in> set vs. \<exists>w. wa (Addr v) = Inr w)"
proof (induction vs arbitrary: acc)
  case Nil
  then show ?case by simp
next
  case (Cons v vs)
  show ?case
  proof (cases "wa (Addr v)")
    case (Inl e)
    then show ?thesis by auto
  next
    case (Inr w)
    then show ?thesis using Cons.IH by simp
  qed
qed

lemma tally_from_entry:
  "tally_from wa acc vs = Inr m \<Longrightarrow>
   m c = (if \<exists>v \<in> set vs. Choice v = c
          then Some ((case acc c of None \<Rightarrow> 0 | Some a \<Rightarrow> a) + choice_sum wa vs c)
          else acc c)"
proof (induction vs arbitrary: acc)
  case Nil
  then show ?case by simp
next
  case (Cons v vs)
  from Cons.prems obtain w where w: "wa (Addr v) = Inr w"
    by (cases "wa (Addr v)") auto
  let ?acc = "acc(Choice v \<mapsto> (case acc (Choice v) of None \<Rightarrow> w | Some a \<Rightarrow> a + w))"
  from Cons.prems w have "tally_from wa ?acc vs = Inr m" by simp
  from Cons.IH [OF this] have IH: "m c = (if \<exists>v \<in> set vs. Choice v = c
          then Some ((case ?acc c of None \<Rightarrow> 0 | Some a \<Rightarrow> a) + choice_sum wa vs c)
          else ?acc c)" .
  show ?case
  proof (cases "Choice v = c")
    case True
    then show ?thesis using IH w
      by (auto simp: choice_sum_def weight_of_def add.assoc split: option.splits)
  next
    case False
    then show ?thesis using IH
      by (auto simp: choice_sum_def)
  qed
qed

lemma choice_sum_mset:
  assumes "mset vs = mset vs'"
  shows "choice_sum wa vs c = choice_sum wa vs' c"
proof -
  have *: "choice_sum wa xs c
      = sum_mset (image_mset (\<lambda>v. weight_of wa (Addr v))
          (filter_mset (\<lambda>v. Choice v = c) (mset xs)))" for xs
    unfolding choice_sum_def by (subst sum_mset_sum_list [symmetric]) simp
  show ?thesis using assms by (simp add: *)
qed

lemma tally_from_mset:
  assumes "mset vs = mset vs'" "tally_from wa acc vs = Inr m"
  shows "tally_from wa acc vs' = Inr m"
proof -
  have s: "set vs = set vs'" using assms(1) by (rule mset_eq_setD)
  from assms(2) have "\<forall>v \<in> set vs. \<exists>w. wa (Addr v) = Inr w"
    using tally_from_succeeds [of wa acc vs] by blast
  with s obtain m' where m': "tally_from wa acc vs' = Inr m'"
    using tally_from_succeeds [of wa acc vs'] by blast
  have "m' c = m c" for c
    using tally_from_entry [OF m', of c] tally_from_entry [OF assms(2), of c] s
      choice_sum_mset [OF assms(1), of wa c] by simp
  then have "m' = m" by (rule ext)
  with m' show ?thesis by simp
qed

lemma choice_sum_total:
  "finite T \<Longrightarrow> Choice ` set vs \<subseteq> T \<Longrightarrow>
   (\<Sum>c \<in> T. choice_sum wa vs c) = sum_list (map (\<lambda>v. weight_of wa (Addr v)) vs)"
proof (induction vs)
  case Nil
  then show ?case by (simp add: choice_sum_def)
next
  case (Cons v vs)
  have "(\<Sum>c \<in> T. choice_sum wa (v # vs) c)
      = (\<Sum>c \<in> T. (if Choice v = c then weight_of wa (Addr v) else 0) + choice_sum wa vs c)"
    by (rule sum.cong) (auto simp: choice_sum_def)
  also have "\<dots> = (\<Sum>c \<in> T. if Choice v = c then weight_of wa (Addr v) else 0)
                  + (\<Sum>c \<in> T. choice_sum wa vs c)"
    by (rule sum.distrib)
  also have "(\<Sum>c \<in> T. if Choice v = c then weight_of wa (Addr v) else 0) = weight_of wa (Addr v)"
    using Cons.prems by (simp add: sum.delta')
  also have "(\<Sum>c \<in> T. choice_sum wa vs c) = sum_list (map (\<lambda>v. weight_of wa (Addr v)) vs)"
    using Cons by simp
  finally show ?case by simp
qed

lemma tally_dom: "tally wa vs = Inr m \<Longrightarrow> dom m = Choice ` set vs"
  using tally_from_entry [of wa Map.empty vs m]
  by (auto simp: tally_def dom_def split: if_splits)

lemma tally_total:
  assumes "tally wa vs = Inr m"
  shows "(\<Sum>c \<in> dom m. the (m c)) = sum_list (map (\<lambda>v. weight_of wa (Addr v)) vs)"
proof -
  have d: "dom m = Choice ` set vs" using assms by (rule tally_dom)
  have "(\<Sum>c \<in> dom m. the (m c)) = (\<Sum>c \<in> Choice ` set vs. choice_sum wa vs c)"
    unfolding d
    by (rule sum.cong) (use tally_from_entry [of wa Map.empty vs m] assms in \<open>auto simp: tally_def\<close>)
  also have "\<dots> = sum_list (map (\<lambda>v. weight_of wa (Addr v)) vs)"
    by (rule choice_sum_total) auto
  finally show ?thesis .
qed

text \<open>
  C8. Two listings of the same votes in different orders give the same tally: if one
  succeeds with a mapping, the other succeeds with the same mapping, and if one fails
  the other fails. When every voter occurs once, the weights of the mapping add up to
  the sum of the recomputed weights of the voters.
\<close>

theorem tally_order_independent:
  assumes "mset vs = mset vs'"
  shows "(tally wa vs = Inr m \<longrightarrow> tally wa vs' = Inr m)
       \<and> ((\<exists>e. tally wa vs = Inl e) \<longrightarrow> (\<exists>e. tally wa vs' = Inl e))
       \<and> (tally wa vs = Inr m \<and> distinct (map Addr vs)
            \<longrightarrow> (\<Sum>c \<in> dom m. the (m c)) = (\<Sum>a \<in> set (map Addr vs). weight_of wa a))"
proof -
  have 1: "tally wa vs = Inr m \<longrightarrow> tally wa vs' = Inr m"
    using assms tally_from_mset [of vs vs' wa Map.empty m] by (simp add: tally_def)
  have 2: "(\<exists>e. tally wa vs = Inl e) \<longrightarrow> (\<exists>e. tally wa vs' = Inl e)"
  proof
    assume "\<exists>e. tally wa vs = Inl e"
    then have "\<not> (\<exists>m. tally wa vs' = Inr m)"
      using tally_from_mset [of vs' vs wa Map.empty] assms by (auto simp: tally_def)
    then show "\<exists>e. tally wa vs' = Inl e"
      by (cases "tally wa vs'") auto
  qed
  have 3: "tally wa vs = Inr m \<and> distinct (map Addr vs)
            \<longrightarrow> (\<Sum>c \<in> dom m. the (m c)) = (\<Sum>a \<in> set (map Addr vs). weight_of wa a)"
  proof
    assume a: "tally wa vs = Inr m \<and> distinct (map Addr vs)"
    then have "(\<Sum>c \<in> dom m. the (m c)) = sum_list (map (\<lambda>v. weight_of wa (Addr v)) vs)"
      by (simp add: tally_total)
    also have "\<dots> = sum_list (map (weight_of wa) (map Addr vs))"
      by (simp add: comp_def)
    also have "\<dots> = (\<Sum>a \<in> set (map Addr vs). weight_of wa a)"
      using a by (simp only: sum_list_distinct_conv_sum_set)
    finally show "(\<Sum>c \<in> dom m. the (m c)) = (\<Sum>a \<in> set (map Addr vs). weight_of wa a)" .
  qed
  from 1 2 3 show ?thesis by blast
qed

theorem tally_order_independent_witness:
  "mset three_votes = mset (rev three_votes)
   \<and> (\<exists>m. tally balances three_votes = Inr m \<and> tally balances (rev three_votes) = Inr m
          \<and> m ''yes'' = Some 5 \<and> m ''no'' = Some 15
          \<and> (\<Sum>c \<in> dom m. the (m c)) = 20)"
proof -
  have t: "tally balances three_votes
      = Inr [''yes'' \<mapsto> 1, ''no'' \<mapsto> 15, ''yes'' \<mapsto> 5]"
    by (simp add: tally_def three_votes_def balances_def)
  have d: "distinct (map Addr three_votes)"
    by (simp add: three_votes_def)
  have s: "(\<Sum>a \<in> set (map Addr three_votes). weight_of balances a) = 20"
    by (simp add: three_votes_def weight_of_def balances_def)
  from tally_order_independent [of three_votes "rev three_votes" balances
      "[''yes'' \<mapsto> 1, ''no'' \<mapsto> 15, ''yes'' \<mapsto> 5]"] t d s
  show ?thesis by simp
qed

end
